theory Spec2Isabelle
  imports Main
begin

section \<open>JavaScript values, thrown errors and responses\<close>

text \<open>
  The handlers of ProposalHQ are Next.js route handlers written in TypeScript. Request
  bodies are untyped JSON, so the fields the handlers read are JavaScript values. A number
  is kept as an integer (only being zero or not, and its decimal text, are ever used); an
  object or array carries the text that \<^verbatim>\<open>String(x)\<close> gives for it.
\<close>

datatype jsval = JUndefined | JNull | JBool bool | JNum int | JStr string | JObject string

text \<open>\<^verbatim>\<open>!x\<close> is \<open>\<not> truthy x\<close>.\<close>

fun truthy :: "jsval \<Rightarrow> bool" where
  "truthy JUndefined = False"
| "truthy JNull = False"
| "truthy (JBool b) = b"
| "truthy (JNum n) = (n \<noteq> 0)"
| "truthy (JStr s) = (s \<noteq> [])"
| "truthy (JObject s) = True"

fun show_nat :: "nat \<Rightarrow> string" where
  "show_nat n =
     (if n < 10 then [''0123456789'' ! n]
      else show_nat (n div 10) @ [''0123456789'' ! (n mod 10)])"

declare show_nat.simps [simp del]

definition show_int :: "int \<Rightarrow> string" where
  "show_int i = (if i < 0 then CHR ''-'' # show_nat (nat (- i)) else show_nat (nat i))"

text \<open>\<^verbatim>\<open>String(x)\<close>, which is also what a template literal \<^verbatim>\<open>${x}\<close> inserts.\<close>

fun String_js :: "jsval \<Rightarrow> string" where
  "String_js JUndefined = ''undefined''"
| "String_js JNull = ''null''"
| "String_js (JBool b) = (if b then ''true'' else ''false'')"
| "String_js (JNum n) = show_int n"
| "String_js (JStr s) = s"
| "String_js (JObject s) = s"

text \<open>
  \<^verbatim>\<open>String.prototype.trim\<close> removes white space at both ends. Characters are code
  units below 256: tab, line feed, vertical tab, form feed, carriage return, space and the
  no-break space.
\<close>

definition is_space :: "char \<Rightarrow> bool" where
  "is_space c = (of_char c \<in> {9, 10, 11, 12, 13, 32, 160 :: nat})"

definition trim :: "string \<Rightarrow> string" where
  "trim s = rev (dropWhile is_space (rev (dropWhile is_space s)))"

text \<open>\<^verbatim>\<open>!s\<close> for a value that is a string, \<^verbatim>\<open>null\<close> or \<^verbatim>\<open>undefined\<close>.\<close>

definition absent :: "string option \<Rightarrow> bool" where
  "absent s = (case s of None \<Rightarrow> True | Some v \<Rightarrow> v = [])"

text \<open>
  A thrown value, as the \<^verbatim>\<open>catch\<close> blocks read it:
  \<^verbatim>\<open>err?.response?.data?.error?.message\<close> and \<^verbatim>\<open>err?.message\<close>.
\<close>

record js_error =
  response_message :: "string option"
  message :: "string option"

definition Error :: "string \<Rightarrow> js_error" where
  "Error m = \<lparr>response_message = None, message = Some m\<rparr>"

text \<open>\<^verbatim>\<open>m || fallback\<close> for a message that may be missing or empty.\<close>

definition or_message :: "string option \<Rightarrow> string \<Rightarrow> string" where
  "or_message m fallback = (case m of None \<Rightarrow> fallback | Some v \<Rightarrow> if v = [] then fallback else v)"

text \<open>
  The result of \<^verbatim>\<open>await req.json()\<close> and of reading the fields from it: a throw (a
  body that is not JSON, or is \<^verbatim>\<open>null\<close>), or the fields, \<^verbatim>\<open>undefined\<close> where the body
  has none.
\<close>

datatype 'a parsed = Unparsable js_error | Parsed 'a

text \<open>\<^verbatim>\<open>NextResponse.json(payload, { status })\<close>; the status is 200 when none is given.\<close>

record 'b response =
  status :: nat
  payload :: 'b

section \<open>The relational store\<close>

text \<open>
  Two tables. Instants (\<^verbatim>\<open>timestamptz\<close> columns and the ISO strings written into
  them) are milliseconds since the epoch. The columns \<^verbatim>\<open>id\<close> and
  \<^verbatim>\<open>user_id\<close> of \<^verbatim>\<open>proposals\<close> are \<open>row_id\<close> and \<open>owner_id\<close> here, and
  \<^verbatim>\<open>proposal\<close> is \<open>proposal_text\<close>.
\<close>

record profile_params =
  user_id :: string
  email :: "string option"
  plan :: string
  stripe_customer_id :: "string option"
  stripe_subscription_id :: "string option"
  current_period_end :: "int option"

record profile = profile_params +
  updated_at :: int

record proposal_row =
  row_id :: nat
  owner_id :: string
  client_name :: string
  notes_col :: jsval
  proposal_text :: string
  created_at :: int

record db =
  profiles :: "profile list"
  proposals :: "proposal_row list"

text \<open>
  \<^verbatim>\<open>.maybeSingle()\<close>: the query's own failure, no row, the one row, or the error the
  client raises when more than one row matches.
\<close>

fun maybeSingle :: "string option \<Rightarrow> 'a list \<Rightarrow> string + 'a option" where
  "maybeSingle (Some e) rows = Inl e"
| "maybeSingle None [] = Inr None"
| "maybeSingle None [r] = Inr (Some r)"
| "maybeSingle None (r # r' # rs) = Inl ''JSON object requested, multiple (or no) rows returned''"

text \<open>
  \<^verbatim>\<open>.select("id", { count: "exact", head: true }).eq("user_id", uid).gte("created_at", start)\<close>:
  the Quota Window count.
\<close>

definition count_since :: "proposal_row list \<Rightarrow> string \<Rightarrow> int \<Rightarrow> nat" where
  "count_since rows uid start =
     length (filter (\<lambda>r. owner_id r = uid \<and> start \<le> created_at r) rows)"

section \<open>The world outside the handlers\<close>

text \<open>
  Everything a handler asks of its surroundings: \<^verbatim>\<open>process.env\<close>, the clock, the
  identity provider, the faults the store raises for each kind of query (\<open>None\<close> when it
  answers), the text provider and the payment provider's SDK.
\<close>

datatype auth_reply = AuthReply (au_user: "string option") (au_error: "string option")

datatype expandable = Ref string | Expanded string

record subscription =
  sub_id :: "string option"
  sub_customer :: "expandable option"
  sub_status :: "string option"
  sub_current_period_end :: "int option"

record checkout_session =
  mode :: string
  metadata_user_id :: "string option"
  customer :: "expandable option"
  session_subscription :: "expandable option"
  customer_details_email :: "string option"
  customer_email :: "string option"

datatype stripe_event =
    CheckoutSessionCompleted checkout_session
  | CustomerSubscriptionUpdated subscription
  | CustomerSubscriptionDeleted subscription
  | OtherEvent string

text \<open>
  What \<^verbatim>\<open>stripe.subscriptions.retrieve\<close> resolves to: something that is not an
  object, or an object with its \<^verbatim>\<open>data\<close> member (\<open>None\<close> when missing or falsy)
  and what the object is when read as a subscription itself.
\<close>

datatype sub_raw = NotObject | Obj (obj_data: "subscription option") (obj_self: subscription)

record session_params =
  sp_mode :: string
  sp_price :: string
  sp_quantity :: nat
  sp_customer_email :: jsval
  sp_success_url :: string
  sp_cancel_url :: string
  sp_metadata_user_id :: jsval

record world =
  env :: "string \<Rightarrow> string option"
  now :: int
  startOfMonth :: int
  getUser :: "string \<Rightarrow> auth_reply"
  profiles_select_error :: "string option"
  proposals_count_error :: "string option"
  proposals_insert_error :: "string option"
  profiles_upsert_error :: "string option"
  chat_completions_create :: "string \<Rightarrow> js_error + string option"
  verifyHeader :: "string \<Rightarrow> string \<Rightarrow> string \<Rightarrow> bool"
  parseEvent :: "string \<Rightarrow> stripe_event option"
  subscriptions_retrieve :: "string \<Rightarrow> js_error + sub_raw"
  checkout_sessions_create :: "session_params \<Rightarrow> js_error + string option"

section \<open>The generation endpoint\<close>

record generate_body =
  clientName :: jsval
  notes_val :: jsval

record generate_request =
  authorization :: "string option"
  body :: "generate_body parsed"

datatype generate_payload =
    ErrorBody string
  | LimitReached (lr_error: string) (lr_code: string) (lr_limit: nat) (lr_used: nat)
  | Generated string proposal_row

text \<open>The calls a run of the handler makes to its collaborators, in order.\<close>

datatype call =
    is_AuthGetUser: AuthGetUser string
  | is_SelectPlan: SelectPlan string
  | is_CountProposals: CountProposals string int
  | is_ReadJson: ReadJson
  | is_ChatCompletionsCreate: ChatCompletionsCreate string
  | is_InsertProposal: InsertProposal string

text \<open>The calls made before the first one of a kind.\<close>

definition calls_before :: "(call \<Rightarrow> bool) \<Rightarrow> call list \<Rightarrow> call list" where
  "calls_before P cs = takeWhile (\<lambda>c. \<not> P c) cs"

definition bearer_token :: "string option \<Rightarrow> string option" where
  "bearer_token h =
     (let authHeader = (case h of None \<Rightarrow> [] | Some v \<Rightarrow> v)
      in if take 7 authHeader = ''Bearer '' then Some (drop 7 authHeader) else None)"

definition FREE_LIMIT :: nat where
  "FREE_LIMIT = 3"

definition nl :: string where
  "nl = [char_of (10 :: nat)]"

definition prompt_of :: "jsval \<Rightarrow> jsval \<Rightarrow> string" where
  "prompt_of cn ns =
     ''Write a client-ready marketing proposal for '' @ String_js cn @ ''.'' @ nl @
     ''Discovery notes:'' @ nl @
     String_js ns @ nl @ nl @
     ''Include sections:'' @ nl @
     ''1) Executive Summary'' @ nl @
     ''2) Goals & Success Metrics'' @ nl @
     ''3) Current Situation'' @ nl @
     ''4) Strategy Overview'' @ nl @
     ''5) Scope of Work (bullets)'' @ nl @
     ''6) 30/60/90 Day Plan'' @ nl @
     ''7) Pricing Options (3 tiers; middle is Recommended)'' @ nl @
     ''8) Assumptions & What We Need From You'' @ nl @
     ''9) Next Steps'' @ nl @ nl @
     ''Rules: be specific, no fake results.''"

text \<open>
  The message of the outer \<^verbatim>\<open>catch\<close>:
  \<^verbatim>\<open>err?.response?.data?.error?.message || err?.message || "Unexpected error"\<close>.
\<close>

definition generate_catch :: "js_error \<Rightarrow> generate_payload response" where
  "generate_catch err =
     \<lparr>status = 500,
      payload = ErrorBody
        (case response_message err of
           Some m \<Rightarrow> if m \<noteq> [] then m else or_message (message err) ''Unexpected error''
         | None \<Rightarrow> or_message (message err) ''Unexpected error'')\<rparr>"

text \<open>
  \<^verbatim>\<open>POST\<close> of \<^verbatim>\<open>src/app/api/generate/route.ts\<close>. The result is the response, the
  store afterwards and the calls made. A count query that does not fail answers with a
  number, so \<^verbatim>\<open>count ?? 0\<close> is the count. The store numbers a new proposal by the size of
  the table and stamps it with its clock.
\<close>

definition generate_POST ::
  "world \<Rightarrow> db \<Rightarrow> generate_request \<Rightarrow> generate_payload response \<times> db \<times> call list" where
  "generate_POST w d req =
    (case bearer_token (authorization req) of
       None \<Rightarrow> (\<lparr>status = 401, payload = ErrorBody ''Unauthorized''\<rparr>, d, [])
     | Some token \<Rightarrow>
    if token = [] then (\<lparr>status = 401, payload = ErrorBody ''Unauthorized''\<rparr>, d, [])
    else if absent (env w ''NEXT_PUBLIC_SUPABASE_URL'') \<or> absent (env w ''NEXT_PUBLIC_SUPABASE_ANON_KEY'')
    then (\<lparr>status = 500, payload = ErrorBody ''Missing Supabase env vars on server''\<rparr>, d, [])
    else
    (case getUser w token of AuthReply user authErr \<Rightarrow>
    (case (if authErr \<noteq> None then None else user) of
       None \<Rightarrow> (\<lparr>status = 401, payload = ErrorBody ''Unauthorized''\<rparr>, d, [AuthGetUser token])
     | Some uid \<Rightarrow>
    (case maybeSingle (profiles_select_error w) (filter (\<lambda>p. user_id p = uid) (profiles d)) of
       Inl profileErr \<Rightarrow>
         (\<lparr>status = 500, payload = ErrorBody ''Could not load user plan''\<rparr>, d,
          [AuthGetUser token, SelectPlan uid])
     | Inr profile \<Rightarrow>
    (let plan = (case profile of None \<Rightarrow> ''free'' | Some p \<Rightarrow> plan p);
         counted = (if plan \<noteq> ''pro'' then [CountProposals uid (startOfMonth w)] else []);
         pre = [AuthGetUser token, SelectPlan uid] @ counted
     in
    if plan \<noteq> ''pro'' \<and> proposals_count_error w \<noteq> None
    then (\<lparr>status = 500, payload = ErrorBody ''Could not check usage''\<rparr>, d, pre)
    else if plan \<noteq> ''pro'' \<and> FREE_LIMIT \<le> count_since (proposals d) uid (startOfMonth w)
    then (\<lparr>status = 402,
           payload = LimitReached
             (''Free plan limit reached ('' @ show_nat FREE_LIMIT @
              ''/month). Upgrade to Pro for unlimited proposals.'')
             ''FREE_LIMIT_REACHED'' FREE_LIMIT (count_since (proposals d) uid (startOfMonth w))\<rparr>,
          d, pre)
    else
    (case body req of
       Unparsable err \<Rightarrow> (generate_catch err, d, pre @ [ReadJson])
     | Parsed b \<Rightarrow>
    if \<not> truthy (clientName b) \<or> \<not> truthy (notes_val b)
    then (\<lparr>status = 400, payload = ErrorBody ''Missing clientName or notes''\<rparr>, d, pre @ [ReadJson])
    else if absent (env w ''OPENAI_API_KEY'')
    then (\<lparr>status = 500, payload = ErrorBody ''OPENAI_API_KEY is missing on the server''\<rparr>, d,
          pre @ [ReadJson])
    else
    (let prompt = prompt_of (clientName b) (notes_val b) in
    (case chat_completions_create w prompt of
       Inl err \<Rightarrow> (generate_catch err, d, pre @ [ReadJson, ChatCompletionsCreate prompt])
     | Inr content \<Rightarrow>
    (let proposal = (case content of None \<Rightarrow> [] | Some c \<Rightarrow> c) in
    (case proposals_insert_error w of
       Some saveErr \<Rightarrow>
         (\<lparr>status = 500, payload = ErrorBody (''Save failed: '' @ saveErr)\<rparr>, d,
          pre @ [ReadJson, ChatCompletionsCreate prompt, InsertProposal uid])
     | None \<Rightarrow>
    (let saved = \<lparr>row_id = length (proposals d), owner_id = uid,
                  client_name = trim (String_js (clientName b)), notes_col = notes_val b,
                  proposal_text = proposal, created_at = now w\<rparr>
     in (\<lparr>status = 200, payload = Generated proposal saved\<rparr>,
         d\<lparr>proposals := proposals d @ [saved]\<rparr>,
         pre @ [ReadJson, ChatCompletionsCreate prompt, InsertProposal uid]))))))))))))"

section \<open>The payment provider's webhook\<close>

text \<open>
  \<^verbatim>\<open>stripe.webhooks.constructEvent(rawBody, sig, secret)\<close> of the payment provider's SDK:
  it verifies the signature header over the raw body with the secret and then parses the
  body. \<open>None\<close> is a throw, from either step. What verifies and how a body parses are
  the SDK's; the world supplies both.
\<close>

definition constructEvent :: "world \<Rightarrow> string \<Rightarrow> string \<Rightarrow> string \<Rightarrow> stripe_event option" where
  "constructEvent w raw sig secret =
     (if verifyHeader w raw sig secret then parseEvent w raw else None)"

text \<open>
  \<^verbatim>\<open>unixToIso\<close>: nothing for a missing or zero number of seconds; otherwise the instant.
  \<^verbatim>\<open>toISOString\<close> throws a \<^verbatim>\<open>RangeError\<close> beyond the range of a \<^verbatim>\<open>Date\<close>.
\<close>

definition unixToIso :: "int option \<Rightarrow> js_error + int option" where
  "unixToIso unixSeconds =
     (case unixSeconds of
        None \<Rightarrow> Inr None
      | Some u \<Rightarrow>
          if u = 0 then Inr None
          else if 8640000000000000 < \<bar>u * 1000\<bar> then Inl (Error ''Invalid time value'')
          else Inr (Some (u * 1000)))"

definition toStripeSubscription :: "sub_raw \<Rightarrow> js_error + subscription" where
  "toStripeSubscription obj =
     (case obj of
        Obj d self \<Rightarrow> (case d of Some s \<Rightarrow> Inr s | None \<Rightarrow> Inr self)
      | NotObject \<Rightarrow> Inl (Error ''Could not parse Stripe subscription object''))"

text \<open>
  \<^verbatim>\<open>.upsert(row, { onConflict: "user_id" })\<close>: the row with this \<open>user_id\<close> is
  replaced, or the row is added.
\<close>

definition upsert_row :: "profile \<Rightarrow> profile list \<Rightarrow> profile list" where
  "upsert_row r rows =
     (if user_id r \<in> set (map user_id rows)
      then map (\<lambda>x. if user_id x = user_id r then r else x) rows
      else rows @ [r])"

definition upsertProfile :: "world \<Rightarrow> db \<Rightarrow> profile_params \<Rightarrow> js_error + db" where
  "upsertProfile w d params =
     (case profiles_upsert_error w of
        Some m \<Rightarrow> Inl (Error (''Supabase upsert failed: '' @ m))
      | None \<Rightarrow>
          Inr (d\<lparr>profiles :=
                 upsert_row
                   \<lparr>user_id = user_id params,
                    email = email params,
                    plan = plan params,
                    stripe_customer_id = stripe_customer_id params,
                    stripe_subscription_id = stripe_subscription_id params,
                    current_period_end = current_period_end params,
                    updated_at = now w\<rparr>
                   (profiles d)\<rparr>))"

text \<open>A string id, or the \<^verbatim>\<open>id\<close> of the expanded object.\<close>

fun expandable_id :: "expandable \<Rightarrow> string" where
  "expandable_id (Ref s) = s"
| "expandable_id (Expanded i) = i"

record webhook_request =
  stripe_signature :: "string option"
  rawBody :: string

datatype hook_payload = HookError string | Ok "string option"

definition ok :: "string option \<Rightarrow> hook_payload response" where
  "ok note = \<lparr>status = 200, payload = Ok note\<rparr>"

text \<open>
  The period end that the checkout branch looks up when the session names a subscription
  (lines 106 to 115 of the webhook route).
\<close>

definition currentPeriodEndIso :: "world \<Rightarrow> string option \<Rightarrow> js_error + int option" where
  "currentPeriodEndIso w subscriptionId =
     (case subscriptionId of
        None \<Rightarrow> Inr None
      | Some sid \<Rightarrow>
          if sid = [] then Inr None
          else
            (case subscriptions_retrieve w sid of
               Inl err \<Rightarrow> Inl err
             | Inr subRaw \<Rightarrow>
                 (case toStripeSubscription subRaw of
                    Inl err \<Rightarrow> Inl err
                  | Inr sub \<Rightarrow> unixToIso (sub_current_period_end sub))))"

text \<open>
  The body of the handler's \<^verbatim>\<open>try\<close> once the event is constructed: \<open>Inl\<close> is a
  thrown error, \<open>Inr\<close> the response and the store afterwards.
\<close>

definition handle_event ::
  "world \<Rightarrow> db \<Rightarrow> stripe_event \<Rightarrow> js_error + (hook_payload response \<times> db)" where
  "handle_event w d event =
    (case event of
       CheckoutSessionCompleted session \<Rightarrow>
         if mode session \<noteq> ''subscription''
         then Inr (ok (Some ''Ignored non-subscription checkout''), d)
         else
           (case metadata_user_id session of
              None \<Rightarrow> Inr (ok (Some ''Missing session.metadata.user_id''), d)
            | Some userId \<Rightarrow>
                if userId = [] then Inr (ok (Some ''Missing session.metadata.user_id''), d)
                else
                  (let customerId = map_option expandable_id (customer session);
                       subscriptionId = map_option expandable_id (session_subscription session)
                   in
                   (case currentPeriodEndIso w subscriptionId of
                      Inl err \<Rightarrow> Inl err
                    | Inr cpe \<Rightarrow>
                        (case upsertProfile w d
                                \<lparr>user_id = userId,
                                 email = (case customer_details_email session of
                                            Some e \<Rightarrow> Some e
                                          | None \<Rightarrow> customer_email session),
                                 plan = ''pro'',
                                 stripe_customer_id = customerId,
                                 stripe_subscription_id = subscriptionId,
                                 current_period_end = cpe\<rparr> of
                           Inl err \<Rightarrow> Inl err
                         | Inr d' \<Rightarrow> Inr (ok None, d')))))
     | CustomerSubscriptionUpdated subEvent \<Rightarrow>
         (case sub_customer subEvent of
            None \<Rightarrow> Inl (Error ''Cannot read properties of null (reading id)'')
          | Some c \<Rightarrow>
              (let customerId = expandable_id c in
               (case maybeSingle (profiles_select_error w)
                       (filter (\<lambda>p. stripe_customer_id p = Some customerId) (profiles d)) of
                  Inl profileErr \<Rightarrow> Inl (Error profileErr)
                | Inr None \<Rightarrow> Inr (ok (Some ''No profile for customer''), d)
                | Inr (Some profile) \<Rightarrow>
                    (let plan = (if sub_status subEvent = Some ''active'' then ''pro'' else ''free'') in
                     (case unixToIso (sub_current_period_end subEvent) of
                        Inl err \<Rightarrow> Inl err
                      | Inr cpe \<Rightarrow>
                          (case upsertProfile w d
                                  \<lparr>user_id = user_id profile,
                                   email = email profile,
                                   plan = plan,
                                   stripe_customer_id = Some customerId,
                                   stripe_subscription_id = sub_id subEvent,
                                   current_period_end = cpe\<rparr> of
                             Inl err \<Rightarrow> Inl err
                           | Inr d' \<Rightarrow> Inr (ok None, d')))))))
     | CustomerSubscriptionDeleted subEvent \<Rightarrow>
         (case sub_customer subEvent of
            None \<Rightarrow> Inl (Error ''Cannot read properties of null (reading id)'')
          | Some c \<Rightarrow>
              (let customerId = expandable_id c in
               (case maybeSingle (profiles_select_error w)
                       (filter (\<lambda>p. stripe_customer_id p = Some customerId) (profiles d)) of
                  Inl profileErr \<Rightarrow> Inl (Error profileErr)
                | Inr None \<Rightarrow> Inr (ok (Some ''No profile for customer''), d)
                | Inr (Some profile) \<Rightarrow>
                    (case upsertProfile w d
                            \<lparr>user_id = user_id profile,
                             email = email profile,
                             plan = ''free'',
                             stripe_customer_id = Some customerId,
                             stripe_subscription_id = None,
                             current_period_end = None\<rparr> of
                       Inl err \<Rightarrow> Inl err
                     | Inr d' \<Rightarrow> Inr (ok None, d')))))
     | OtherEvent t \<Rightarrow> Inr (ok None, d))"

text \<open>
  \<^verbatim>\<open>POST\<close> of \<^verbatim>\<open>src/app/api/stripe/webhook/route.ts\<close>: the response and the store
  afterwards.
\<close>

definition webhook_POST ::
  "world \<Rightarrow> db \<Rightarrow> webhook_request \<Rightarrow> hook_payload response \<times> db" where
  "webhook_POST w d req =
    (if absent (stripe_signature req)
     then (\<lparr>status = 400, payload = HookError ''Missing stripe-signature''\<rparr>, d)
     else if absent (env w ''STRIPE_WEBHOOK_SECRET'')
     then (\<lparr>status = 500, payload = HookError ''Missing STRIPE_WEBHOOK_SECRET''\<rparr>, d)
     else
       (case constructEvent w (rawBody req)
               (case stripe_signature req of Some sig \<Rightarrow> sig | None \<Rightarrow> [])
               (case env w ''STRIPE_WEBHOOK_SECRET'' of Some secret \<Rightarrow> secret | None \<Rightarrow> []) of
          None \<Rightarrow> (\<lparr>status = 400, payload = HookError ''Invalid signature''\<rparr>, d)
        | Some event \<Rightarrow>
            (case handle_event w d event of
               Inl err \<Rightarrow>
                 (\<lparr>status = 400,
                   payload = HookError (case message err of Some m \<Rightarrow> m | None \<Rightarrow> ''Webhook error'')\<rparr>,
                  d)
             | Inr result \<Rightarrow> result)))"

text \<open>
  The event a request carries once its signature has verified against the configured
  secret, as the handler constructs it before it branches on the event's type.
\<close>

definition verified_event :: "world \<Rightarrow> webhook_request \<Rightarrow> stripe_event option" where
  "verified_event w req =
     (case (stripe_signature req, env w ''STRIPE_WEBHOOK_SECRET'') of
        (Some sig, Some secret) \<Rightarrow>
          if sig = [] \<or> secret = [] then None else constructEvent w (rawBody req) sig secret
      | _ \<Rightarrow> None)"

text \<open>The Profile of a user in the store.\<close>

definition profile_of :: "db \<Rightarrow> string \<Rightarrow> profile option" where
  "profile_of d uid = find (\<lambda>p. user_id p = uid) (profiles d)"

section \<open>The checkout-session-create endpoint\<close>

record checkout_body =
  body_email :: jsval
  body_userId :: jsval

datatype checkout_payload = CheckoutError string | CheckoutUrl "string option"

text \<open>
  \<^verbatim>\<open>POST\<close> of the checkout route that records the user in the session's metadata: the
  response and the sessions it asked the payment provider to create.
\<close>

definition checkout_POST ::
  "world \<Rightarrow> checkout_body parsed \<Rightarrow> checkout_payload response \<times> session_params list" where
  "checkout_POST w req_json =
    (case req_json of
       Unparsable err \<Rightarrow>
         (\<lparr>status = 500, payload = CheckoutError (or_message (message err) ''Stripe checkout failed'')\<rparr>, [])
     | Parsed b \<Rightarrow>
    if absent (env w ''STRIPE_SECRET_KEY'')
    then (\<lparr>status = 500, payload = CheckoutError ''Missing STRIPE_SECRET_KEY''\<rparr>, [])
    else
    (case env w ''NEXT_PUBLIC_STRIPE_PRICE_ID'' of
       None \<Rightarrow> (\<lparr>status = 500, payload = CheckoutError ''Missing NEXT_PUBLIC_STRIPE_PRICE_ID''\<rparr>, [])
     | Some price \<Rightarrow>
    if price = []
    then (\<lparr>status = 500, payload = CheckoutError ''Missing NEXT_PUBLIC_STRIPE_PRICE_ID''\<rparr>, [])
    else if \<not> truthy (body_email b)
    then (\<lparr>status = 400, payload = CheckoutError ''Missing email''\<rparr>, [])
    else if \<not> truthy (body_userId b)
    then (\<lparr>status = 400, payload = CheckoutError ''Missing userId''\<rparr>, [])
    else
    (let siteUrl = or_message (env w ''NEXT_PUBLIC_SITE_URL'') ''http://localhost:3000'';
         params = \<lparr>sp_mode = ''subscription'',
                   sp_price = price,
                   sp_quantity = 1,
                   sp_customer_email = body_email b,
                   sp_success_url = siteUrl @ ''/billing/success?session_id={CHECKOUT_SESSION_ID}'',
                   sp_cancel_url = siteUrl @ ''/billing/cancel'',
                   sp_metadata_user_id = body_userId b\<rparr>
     in
    (case checkout_sessions_create w params of
       Inl err \<Rightarrow>
         (\<lparr>status = 500, payload = CheckoutError (or_message (message err) ''Stripe checkout failed'')\<rparr>,
          [params])
     | Inr url \<Rightarrow> (\<lparr>status = 200, payload = CheckoutUrl url\<rparr>, [params])))))"

section \<open>Example data\<close>

text \<open>A configured deployment, three users and a store, on which the theorems are exercised.\<close>

definition demo_env :: "string \<Rightarrow> string option" where
  "demo_env name =
     (if name \<in> set [''NEXT_PUBLIC_SUPABASE_URL'', ''NEXT_PUBLIC_SUPABASE_ANON_KEY'',
                       ''OPENAI_API_KEY'', ''STRIPE_SECRET_KEY'', ''STRIPE_WEBHOOK_SECRET'',
                       ''NEXT_PUBLIC_STRIPE_PRICE_ID'']
      then Some ''configured'' else None)"

definition demo_getUser :: "string \<Rightarrow> auth_reply" where
  "demo_getUser token =
     (if token = ''tok-ann'' then AuthReply (Some ''ann'') None
      else if token = ''tok-bob'' then AuthReply (Some ''bob'') None
      else if token = ''tok-cy'' then AuthReply (Some ''cy'') None
      else AuthReply None (Some ''invalid JWT''))"

definition bob_session :: checkout_session where
  "bob_session =
     \<lparr>mode = ''subscription'', metadata_user_id = Some ''bob'',
      customer = Some (Ref ''cus_bob''), session_subscription = Some (Expanded ''sub_bob''),
      customer_details_email = Some ''bob@example.com'', customer_email = None\<rparr>"

definition bob_subscription :: subscription where
  "bob_subscription =
     \<lparr>sub_id = Some ''sub_bob'', sub_customer = Some (Ref ''cus_bob''),
      sub_status = Some ''active'', sub_current_period_end = Some 1764547200\<rparr>"

definition ann_subscription :: subscription where
  "ann_subscription =
     \<lparr>sub_id = Some ''sub_ann2'', sub_customer = Some (Expanded ''cus_ann''),
      sub_status = Some ''past_due'', sub_current_period_end = Some 1767225600\<rparr>"

text \<open>
  A stand-in for the provider's signature scheme: the header that verifies a body under the
  configured secret is the body itself behind \<^verbatim>\<open>t=1,v1=\<close>. Bodies are named, not
  spelled out as JSON.
\<close>

definition demo_verifyHeader :: "string \<Rightarrow> string \<Rightarrow> string \<Rightarrow> bool" where
  "demo_verifyHeader raw sig secret = (secret = ''configured'' \<and> sig = ''t=1,v1='' @ raw)"

definition demo_parseEvent :: "string \<Rightarrow> stripe_event option" where
  "demo_parseEvent raw =
     (if raw = ''evt_checkout'' then Some (CheckoutSessionCompleted bob_session)
      else if raw = ''evt_checkout_no_subscription''
        then Some (CheckoutSessionCompleted (bob_session\<lparr>session_subscription := None\<rparr>))
      else if raw = ''evt_updated'' then Some (CustomerSubscriptionUpdated ann_subscription)
      else if raw = ''evt_deleted'' then Some (CustomerSubscriptionDeleted ann_subscription)
      else if raw = ''evt_updated_unknown'' then Some (CustomerSubscriptionUpdated bob_subscription)
      else if raw = ''evt_invoice'' then Some (OtherEvent ''invoice.paid'')
      else None)"

definition demo_retrieve :: "string \<Rightarrow> js_error + sub_raw" where
  "demo_retrieve sid =
     (if sid = ''sub_bob'' then Inr (Obj None bob_subscription)
      else Inl (Error ''No such subscription''))"

definition demo_hook :: "string \<Rightarrow> webhook_request" where
  "demo_hook raw = \<lparr>stripe_signature = Some (''t=1,v1='' @ raw), rawBody = raw\<rparr>"

definition demo_world :: world where
  "demo_world =
     \<lparr>env = demo_env,
      now = 1762128000000,
      startOfMonth = 1761955200000,
      getUser = demo_getUser,
      profiles_select_error = None,
      proposals_count_error = None,
      proposals_insert_error = None,
      profiles_upsert_error = None,
      chat_completions_create = (\<lambda>prompt. Inr (Some ''Executive Summary'')),
      verifyHeader = demo_verifyHeader,
      parseEvent = demo_parseEvent,
      subscriptions_retrieve = demo_retrieve,
      checkout_sessions_create = (\<lambda>params. Inr (Some ''https://checkout.stripe.com/c/pay/cs_test_1''))\<rparr>"

definition demo_proposal :: "nat \<Rightarrow> string \<Rightarrow> int \<Rightarrow> proposal_row" where
  "demo_proposal n uid t =
     \<lparr>row_id = n, owner_id = uid, client_name = ''Acme'', notes_col = JStr ''wants more leads'',
      proposal_text = ''Executive Summary'', created_at = t\<rparr>"

definition ann_profile :: profile where
  "ann_profile =
     \<lparr>user_id = ''ann'', email = Some ''ann@example.com'', plan = ''pro'',
      stripe_customer_id = Some ''cus_ann'', stripe_subscription_id = Some ''sub_ann'',
      current_period_end = Some 1764547200000, updated_at = 1761955300000\<rparr>"

definition bob_profile :: profile where
  "bob_profile =
     \<lparr>user_id = ''bob'', email = Some ''bob@example.com'', plan = ''free'',
      stripe_customer_id = None, stripe_subscription_id = None,
      current_period_end = None, updated_at = 1761955400000\<rparr>"

definition demo_db :: db where
  "demo_db =
     \<lparr>profiles = [ann_profile, bob_profile],
      proposals =
        [demo_proposal 0 ''cy'' 1761955200000, demo_proposal 1 ''bob'' 1761000000000,
         demo_proposal 2 ''cy'' 1761955200001, demo_proposal 3 ''bob'' 1762000000000,
         demo_proposal 4 ''cy'' 1762000000000, demo_proposal 5 ''ann'' 1762000000001]\<rparr>"

definition demo_generate :: "string \<Rightarrow> generate_request" where
  "demo_generate token =
     \<lparr>authorization = Some (''Bearer '' @ token),
      body = Parsed \<lparr>clientName = JStr ''Acme'', notes_val = JStr ''wants more leads''\<rparr>\<rparr>"

text \<open>The same deployment a minute later, and with the store refusing writes.\<close>

definition later_world :: world where
  "later_world = demo_world\<lparr>now := 1762128060000\<rparr>"

definition down_world :: world where
  "down_world = demo_world\<lparr>profiles_upsert_error := Some ''connection refused''\<rparr>"

section \<open>Facts about the store and the helpers\<close>

lemma show_nat_3: "show_nat 3 = ''3''"
  by (simp add: show_nat.simps)

lemma webhook_POST_verified:
  assumes "verified_event w req = Some ev"
  shows "webhook_POST w d req =
          (case handle_event w d ev of
             Inl err \<Rightarrow>
               (\<lparr>status = 400,
                 payload = HookError (case message err of Some m \<Rightarrow> m | None \<Rightarrow> ''Webhook error'')\<rparr>, d)
           | Inr result \<Rightarrow> result)"
  using assms
  by (auto simp: verified_event_def webhook_POST_def absent_def split: option.splits if_splits)

lemma upsert_row_twice:
  assumes "user_id r1 = user_id r2"
  shows "upsert_row r2 (upsert_row r1 rows) = upsert_row r2 rows"
proof (cases "user_id r2 \<in> set (map user_id rows)")
  case True
  then have "user_id r2 \<in> set (map user_id (map (\<lambda>x. if user_id x = user_id r2 then r1 else x) rows))"
    using assms by (auto simp: image_iff)
  with True show ?thesis
    using assms by (auto simp: upsert_row_def)
next
  case False
  then have "map (\<lambda>x. if user_id x = user_id r2 then r2 else x) rows = rows"
    by (induction rows) auto
  with False show ?thesis
    using assms by (simp add: upsert_row_def)
qed

lemma find_upsert_row:
  "user_id r = uid \<Longrightarrow> find (\<lambda>p. user_id p = uid) (upsert_row r rows) = Some r"
  by (induction rows) (auto simp: upsert_row_def split: if_splits)

lemma unixToIso_value:
  assumes "\<forall>u. t = Some u \<longrightarrow> \<bar>u * 1000\<bar> \<le> 8640000000000000"
  shows "unixToIso t = Inr (case t of None \<Rightarrow> None | Some u \<Rightarrow> if u = 0 then None else Some (u * 1000))"
  using assms by (auto simp: unixToIso_def split: option.splits)

lemma distinct_upsert_row:
  assumes "distinct (map user_id rows)"
  shows "distinct (map user_id (upsert_row r rows))"
proof (cases "user_id r \<in> set (map user_id rows)")
  case True
  have same: "map user_id (map (\<lambda>x. if user_id x = user_id r then r else x) rows) = map user_id rows"
    by (induction rows) auto
  from True have "upsert_row r rows = map (\<lambda>x. if user_id x = user_id r then r else x) rows"
    by (simp add: upsert_row_def)
  with same assms show ?thesis by (simp only:)
next
  case False
  with assms show ?thesis by (simp add: upsert_row_def)
qed

lemma filter_replace_match:
  assumes "distinct (map user_id rows)" and "filter P rows = [p]" and "P r"
    and "user_id r = user_id p"
  shows "filter P (upsert_row r rows) = [r]"
proof -
  from assms(2) have "p \<in> set (filter P rows)" by simp
  then have pin: "p \<in> set rows" by simp
  have "filter P (map (\<lambda>x. if user_id x = user_id p then r else x) rows) = [r]"
    using assms(1,2)
  proof (induction rows)
    case Nil
    then show ?case by simp
  next
    case (Cons x xs)
    show ?case
    proof (cases "P x")
      case True
      with Cons.prems have xp: "x = p" and rest: "filter P xs = []" by auto
      from Cons.prems xp have "user_id p \<notin> user_id ` set xs" by auto
      then have "map (\<lambda>x. if user_id x = user_id p then r else x) xs = xs"
        by (induction xs) auto
      with xp rest assms(3) show ?thesis by simp
    next
      case False
      with Cons.prems have rest: "filter P xs = [p]" and d: "distinct (map user_id xs)" by auto
      from rest have "p \<in> set (filter P xs)" by simp
      then have "p \<in> set xs" by simp
      with Cons.prems have "user_id x \<noteq> user_id p" by (auto simp: image_iff)
      with False Cons.IH [OF d rest] show ?thesis by simp
    qed
  qed
  moreover from pin have "user_id r \<in> set (map user_id rows)"
    using assms(4) by (auto simp: image_iff)
  ultimately show ?thesis using assms(4) by (simp add: upsert_row_def)
qed


section \<open>Facts about the example data\<close>

lemma demo_verified:
  "verified_event demo_world (demo_hook ''evt_checkout'') = Some (CheckoutSessionCompleted bob_session)"
  "verified_event later_world (demo_hook ''evt_checkout'') = Some (CheckoutSessionCompleted bob_session)"
  "verified_event demo_world (demo_hook ''evt_checkout_no_subscription'') =
     Some (CheckoutSessionCompleted (bob_session\<lparr>session_subscription := None\<rparr>))"
  "verified_event demo_world (demo_hook ''evt_updated'') = Some (CustomerSubscriptionUpdated ann_subscription)"
  "verified_event demo_world (demo_hook ''evt_updated_unknown'') = Some (CustomerSubscriptionUpdated bob_subscription)"
  "verified_event demo_world (demo_hook ''evt_deleted'') = Some (CustomerSubscriptionDeleted ann_subscription)"
  "verified_event later_world (demo_hook ''evt_deleted'') = Some (CustomerSubscriptionDeleted ann_subscription)"
  "verified_event down_world (demo_hook ''evt_deleted'') = Some (CustomerSubscriptionDeleted ann_subscription)"
  "verified_event demo_world (demo_hook ''evt_invoice'') = Some (OtherEvent ''invoice.paid'')"
  by (simp_all add: verified_event_def constructEvent_def demo_world_def demo_env_def
      demo_hook_def demo_verifyHeader_def demo_parseEvent_def later_world_def down_world_def)

lemma demo_upsert_ok:
  "profiles_upsert_error demo_world = None" "profiles_upsert_error later_world = None"
  "profiles_select_error demo_world = None" "profiles_select_error later_world = None"
  by (simp_all add: demo_world_def later_world_def)

lemma demo_period_end:
  "currentPeriodEndIso demo_world (map_option expandable_id (session_subscription bob_session)) =
     Inr (Some 1764547200000)"
  "currentPeriodEndIso later_world (map_option expandable_id (session_subscription bob_session)) =
     Inr (Some 1764547200000)"
  by (simp_all add: currentPeriodEndIso_def bob_session_def demo_world_def later_world_def
      demo_retrieve_def toStripeSubscription_def bob_subscription_def unixToIso_def)

lemma demo_ann_match:
  "filter (\<lambda>q. stripe_customer_id q = Some (expandable_id (Expanded ''cus_ann''))) (profiles demo_db) =
     [ann_profile]"
  by (simp add: demo_db_def ann_profile_def bob_profile_def)

lemma demo_bob_no_match:
  "filter (\<lambda>q. stripe_customer_id q = Some (expandable_id (Ref ''cus_bob''))) (profiles demo_db) = []"
  by (simp add: demo_db_def ann_profile_def bob_profile_def)

lemma demo_distinct: "distinct (map user_id (profiles demo_db))"
  by (simp add: demo_db_def ann_profile_def bob_profile_def)



section \<open>The quota decision\<close>

text \<open>
  Claim C1. Once the caller's identity is resolved and the plan is loaded, a \<^verbatim>\<open>pro\<close> plan
  always passes the quota check (the handler goes on to read the body and the answer is not
  402). A \<^verbatim>\<open>free\<close> plan passes when the count of the user's proposals created since the
  start of the month is below 3, and is otherwise answered with 402, code
  \<^verbatim>\<open>FREE_LIMIT_REACHED\<close>, limit 3 and that count as \<open>used\<close>, with the store untouched.
\<close>

theorem quota_decision:
  assumes tok: "bearer_token (authorization req) = Some token" "token \<noteq> []"
      and cfg: "\<not> absent (env w ''NEXT_PUBLIC_SUPABASE_URL'')"
               "\<not> absent (env w ''NEXT_PUBLIC_SUPABASE_ANON_KEY'')"
      and user: "getUser w token = AuthReply (Some uid) None"
      and prof: "maybeSingle (profiles_select_error w) (filter (\<lambda>p. user_id p = uid) (profiles d)) = Inr profile"
      and resolved: "resolved = (case profile of None \<Rightarrow> ''free'' | Some p \<Rightarrow> plan p)"
      and used: "used = count_since (proposals d) uid (startOfMonth w)"
  shows "(resolved = ''pro'' \<longrightarrow>
            status (fst (generate_POST w d req)) \<noteq> 402 \<and>
            ReadJson \<in> set (snd (snd (generate_POST w d req)))) \<and>
         (resolved = ''free'' \<and> proposals_count_error w = None \<and> used < 3 \<longrightarrow>
            status (fst (generate_POST w d req)) \<noteq> 402 \<and>
            ReadJson \<in> set (snd (snd (generate_POST w d req)))) \<and>
         (resolved = ''free'' \<and> proposals_count_error w = None \<and> 3 \<le> used \<longrightarrow>
            generate_POST w d req =
              (\<lparr>status = 402,
                payload = LimitReached
                  ''Free plan limit reached (3/month). Upgrade to Pro for unlimited proposals.''
                  ''FREE_LIMIT_REACHED'' 3 used\<rparr>,
               d,
               [AuthGetUser token, SelectPlan uid, CountProposals uid (startOfMonth w)]))"
  using assms
  by (auto simp: generate_POST_def show_nat_3 generate_catch_def Let_def FREE_LIMIT_def
           split: parsed.splits sum.splits option.splits)

theorem quota_decision_witness:
  "status (fst (generate_POST demo_world demo_db (demo_generate ''tok-ann''))) \<noteq> 402 \<and>
   ReadJson \<in> set (snd (snd (generate_POST demo_world demo_db (demo_generate ''tok-ann'')))) \<and>
   count_since (proposals demo_db) ''bob'' (startOfMonth demo_world) = 1 \<and>
   status (fst (generate_POST demo_world demo_db (demo_generate ''tok-bob''))) \<noteq> 402 \<and>
   ReadJson \<in> set (snd (snd (generate_POST demo_world demo_db (demo_generate ''tok-bob'')))) \<and>
   count_since (proposals demo_db) ''cy'' (startOfMonth demo_world) = 3 \<and>
   generate_POST demo_world demo_db (demo_generate ''tok-cy'') =
     (\<lparr>status = 402,
       payload = LimitReached
         ''Free plan limit reached (3/month). Upgrade to Pro for unlimited proposals.''
         ''FREE_LIMIT_REACHED'' 3 3\<rparr>,
      demo_db,
      [AuthGetUser ''tok-cy'', SelectPlan ''cy'', CountProposals ''cy'' (startOfMonth demo_world)])"
proof -
  have tok: "bearer_token (authorization (demo_generate t)) = Some t" for t
    by (simp add: demo_generate_def bearer_token_def)
  have url: "\<not> absent (env demo_world ''NEXT_PUBLIC_SUPABASE_URL'')"
    by (simp add: demo_world_def demo_env_def absent_def)
  have anon: "\<not> absent (env demo_world ''NEXT_PUBLIC_SUPABASE_ANON_KEY'')"
    by (simp add: demo_world_def demo_env_def absent_def)
  have cnt: "proposals_count_error demo_world = None"
    by (simp add: demo_world_def)
  have ann_user: "getUser demo_world ''tok-ann'' = AuthReply (Some ''ann'') None"
    by (simp add: demo_world_def demo_getUser_def)
  have bob_user: "getUser demo_world ''tok-bob'' = AuthReply (Some ''bob'') None"
    by (simp add: demo_world_def demo_getUser_def)
  have cy_user: "getUser demo_world ''tok-cy'' = AuthReply (Some ''cy'') None"
    by (simp add: demo_world_def demo_getUser_def)
  have ann_row: "maybeSingle (profiles_select_error demo_world)
      (filter (\<lambda>p. user_id p = ''ann'') (profiles demo_db)) = Inr (Some ann_profile)"
    by (simp add: demo_world_def demo_db_def ann_profile_def bob_profile_def)
  have bob_row: "maybeSingle (profiles_select_error demo_world)
      (filter (\<lambda>p. user_id p = ''bob'') (profiles demo_db)) = Inr (Some bob_profile)"
    by (simp add: demo_world_def demo_db_def ann_profile_def bob_profile_def)
  have cy_row: "maybeSingle (profiles_select_error demo_world)
      (filter (\<lambda>p. user_id p = ''cy'') (profiles demo_db)) = Inr None"
    by (simp add: demo_world_def demo_db_def ann_profile_def bob_profile_def)
  have ann_plan: "''pro'' = (case Some ann_profile of None \<Rightarrow> ''free'' | Some p \<Rightarrow> plan p)"
    by (simp add: ann_profile_def)
  have bob_plan: "''free'' = (case Some bob_profile of None \<Rightarrow> ''free'' | Some p \<Rightarrow> plan p)"
    by (simp add: bob_profile_def)
  have cy_plan: "''free'' = (case None :: profile option of None \<Rightarrow> ''free'' | Some p \<Rightarrow> plan p)"
    by simp
  have bob_used: "count_since (proposals demo_db) ''bob'' (startOfMonth demo_world) = 1"
    by (simp add: demo_world_def demo_db_def count_since_def demo_proposal_def)
  have cy_used: "count_since (proposals demo_db) ''cy'' (startOfMonth demo_world) = 3"
    by (simp add: demo_world_def demo_db_def count_since_def demo_proposal_def)
  have ne: "''tok-ann'' \<noteq> []" "''tok-bob'' \<noteq> []" "''tok-cy'' \<noteq> []"
    by simp_all
  note ann = quota_decision [OF tok ne(1) url anon ann_user ann_row ann_plan refl]
  note bob = quota_decision [OF tok ne(2) url anon bob_user bob_row bob_plan bob_used [symmetric]]
  note cy = quota_decision [OF tok ne(3) url anon cy_user cy_row cy_plan cy_used [symmetric]]
  from ann have a: "status (fst (generate_POST demo_world demo_db (demo_generate ''tok-ann''))) \<noteq> 402 \<and>
      ReadJson \<in> set (snd (snd (generate_POST demo_world demo_db (demo_generate ''tok-ann''))))"
    by blast
  from bob cnt have b: "status (fst (generate_POST demo_world demo_db (demo_generate ''tok-bob''))) \<noteq> 402 \<and>
      ReadJson \<in> set (snd (snd (generate_POST demo_world demo_db (demo_generate ''tok-bob''))))"
    by simp
  from cy cnt have c: "generate_POST demo_world demo_db (demo_generate ''tok-cy'') =
     (\<lparr>status = 402,
       payload = LimitReached
         ''Free plan limit reached (3/month). Upgrade to Pro for unlimited proposals.''
         ''FREE_LIMIT_REACHED'' 3 3\<rparr>,
      demo_db,
      [AuthGetUser ''tok-cy'', SelectPlan ''cy'', CountProposals ''cy'' (startOfMonth demo_world)])"
    by simp
  from a bob_used b cy_used c show ?thesis by blast
qed

section \<open>The subscription state machine\<close>

text \<open>
  Claim C2. Delivering the same verified checkout-completed event (subscription mode, with a
  user id in its metadata) a second time leaves the store as one delivery does: the table
  after both deliveries is the table after the later one alone, and it is the very same
  table when the clock and the retrieved period end are the same. In both cases the user's
  Profile has plan \<^verbatim>\<open>pro\<close> and the customer and subscription references of the event.
\<close>

theorem checkout_completed_idempotent:
  assumes v1: "verified_event w1 req = Some (CheckoutSessionCompleted session)"
    and v2: "verified_event w2 req = Some (CheckoutSessionCompleted session)"
    and m: "mode session = ''subscription''"
    and u: "metadata_user_id session = Some userId" "userId \<noteq> []"
    and p1: "currentPeriodEndIso w1 (map_option expandable_id (session_subscription session)) = Inr cpe1"
    and p2: "currentPeriodEndIso w2 (map_option expandable_id (session_subscription session)) = Inr cpe2"
    and s1: "profiles_upsert_error w1 = None"
    and s2: "profiles_upsert_error w2 = None"
    and once: "once = snd (webhook_POST w1 d req)"
    and twice: "twice = snd (webhook_POST w2 once req)"
  shows "twice = snd (webhook_POST w2 d req) \<and>
         (now w2 = now w1 \<and> cpe2 = cpe1 \<longrightarrow> twice = once) \<and>
         (\<exists>r1 r2. profile_of once userId = Some r1 \<and> profile_of twice userId = Some r2 \<and>
            plan r1 = ''pro'' \<and> plan r2 = ''pro'' \<and>
            stripe_customer_id r1 = map_option expandable_id (customer session) \<and>
            stripe_customer_id r2 = stripe_customer_id r1 \<and>
            stripe_subscription_id r1 = map_option expandable_id (session_subscription session) \<and>
            stripe_subscription_id r2 = stripe_subscription_id r1 \<and>
            email r2 = email r1 \<and> user_id r2 = userId \<and> user_id r1 = userId)"
proof -
  let ?row = "\<lambda>t c. \<lparr>user_id = userId,
                email = (case customer_details_email session of
                           Some e \<Rightarrow> Some e | None \<Rightarrow> customer_email session),
                plan = ''pro'',
                stripe_customer_id = map_option expandable_id (customer session),
                stripe_subscription_id = map_option expandable_id (session_subscription session),
                current_period_end = c,
                updated_at = t\<rparr>"
  have a1: "snd (webhook_POST w1 d' req) = d'\<lparr>profiles := upsert_row (?row (now w1) cpe1) (profiles d')\<rparr>" for d'
    using v1 m u p1 s1
    by (simp add: webhook_POST_verified handle_event_def upsertProfile_def)
  have a2: "snd (webhook_POST w2 d' req) = d'\<lparr>profiles := upsert_row (?row (now w2) cpe2) (profiles d')\<rparr>" for d'
    using v2 m u p2 s2
    by (simp add: webhook_POST_verified handle_event_def upsertProfile_def)
  have o: "once = d\<lparr>profiles := upsert_row (?row (now w1) cpe1) (profiles d)\<rparr>"
    using once a1 by simp
  have t: "twice = d\<lparr>profiles := upsert_row (?row (now w2) cpe2) (profiles d)\<rparr>"
    using twice a2 [of once] o by (simp add: upsert_row_twice)
  have c1: "twice = snd (webhook_POST w2 d req)"
    using t a2 [of d] by simp
  have c2: "now w2 = now w1 \<and> cpe2 = cpe1 \<longrightarrow> twice = once"
    using o t by simp
  have f1: "profile_of once userId = Some (?row (now w1) cpe1)"
    using o by (simp add: profile_of_def find_upsert_row)
  have f2: "profile_of twice userId = Some (?row (now w2) cpe2)"
    using t by (simp add: profile_of_def find_upsert_row)
  from c1 c2 f1 f2 show ?thesis by simp
qed

theorem checkout_completed_idempotent_witness:
  "snd (webhook_POST later_world
          (snd (webhook_POST demo_world demo_db (demo_hook ''evt_checkout'')))
          (demo_hook ''evt_checkout'')) =
     snd (webhook_POST later_world demo_db (demo_hook ''evt_checkout'')) \<and>
   snd (webhook_POST demo_world
          (snd (webhook_POST demo_world demo_db (demo_hook ''evt_checkout'')))
          (demo_hook ''evt_checkout'')) =
     snd (webhook_POST demo_world demo_db (demo_hook ''evt_checkout'')) \<and>
   (\<exists>r1 r2.
      profile_of (snd (webhook_POST demo_world demo_db (demo_hook ''evt_checkout''))) ''bob'' = Some r1 \<and>
      profile_of (snd (webhook_POST later_world
          (snd (webhook_POST demo_world demo_db (demo_hook ''evt_checkout'')))
          (demo_hook ''evt_checkout''))) ''bob'' = Some r2 \<and>
      plan r1 = ''pro'' \<and> plan r2 = ''pro'' \<and>
      stripe_customer_id r1 = Some ''cus_bob'' \<and> stripe_customer_id r2 = Some ''cus_bob'' \<and>
      stripe_subscription_id r1 = Some ''sub_bob'' \<and> stripe_subscription_id r2 = Some ''sub_bob'')"
proof -
  have a: "mode bob_session = ''subscription''" "metadata_user_id bob_session = Some ''bob''"
    "''bob'' \<noteq> []"
    by (simp_all add: bob_session_def)
  have c: "map_option expandable_id (customer bob_session) = Some ''cus_bob''"
    "map_option expandable_id (session_subscription bob_session) = Some ''sub_bob''"
    by (simp_all add: bob_session_def)
  note later = checkout_completed_idempotent [OF demo_verified(1) demo_verified(2) a
      demo_period_end(1) demo_period_end(2) demo_upsert_ok(1) demo_upsert_ok(2) refl refl,
      where d = demo_db]
  note same = checkout_completed_idempotent [OF demo_verified(1) demo_verified(1) a
      demo_period_end(1) demo_period_end(1) demo_upsert_ok(1) demo_upsert_ok(1) refl refl,
      where d = demo_db]
  from later same c show ?thesis
    by (simp only: refl simp_thms) metis
qed

text \<open>
  Claim C3. A request that carries a signature which does not verify over its body against the
  configured webhook secret (such as a tampered body under the signature of the original one)
  is answered with 400 and the error \<^verbatim>\<open>Invalid signature\<close>, and the store is unchanged.
\<close>

theorem signature_gate:
  assumes "stripe_signature req = Some sig" and "sig \<noteq> []"
    and "env w ''STRIPE_WEBHOOK_SECRET'' = Some secret" and "secret \<noteq> []"
    and "\<not> verifyHeader w (rawBody req) sig secret"
  shows "webhook_POST w d req = (\<lparr>status = 400, payload = HookError ''Invalid signature''\<rparr>, d)"
  using assms by (simp add: webhook_POST_def constructEvent_def absent_def)

theorem signature_gate_witness:
  "verifyHeader demo_world ''evt_checkout'' ''t=1,v1=evt_checkout'' ''configured'' \<and>
   \<not> verifyHeader demo_world ''evt_checkout_tampered'' ''t=1,v1=evt_checkout'' ''configured'' \<and>
   webhook_POST demo_world demo_db
     \<lparr>stripe_signature = Some ''t=1,v1=evt_checkout'', rawBody = ''evt_checkout_tampered''\<rparr> =
     (\<lparr>status = 400, payload = HookError ''Invalid signature''\<rparr>, demo_db)"
proof -
  let ?req = "\<lparr>stripe_signature = Some ''t=1,v1=evt_checkout'', rawBody = ''evt_checkout_tampered''\<rparr>"
  have s: "stripe_signature ?req = Some ''t=1,v1=evt_checkout''" by simp
  have n1: "''t=1,v1=evt_checkout'' \<noteq> []" and n2: "''configured'' \<noteq> []" by simp_all
  have e: "env demo_world ''STRIPE_WEBHOOK_SECRET'' = Some ''configured''"
    by (simp add: demo_world_def demo_env_def)
  have original: "verifyHeader demo_world ''evt_checkout'' ''t=1,v1=evt_checkout'' ''configured''"
    by (simp add: demo_world_def demo_verifyHeader_def)
  have tampered: "\<not> verifyHeader demo_world (rawBody ?req) ''t=1,v1=evt_checkout'' ''configured''"
    by (simp add: demo_world_def demo_verifyHeader_def)
  from signature_gate [OF s n1 e n2 tampered, where d = demo_db] original tampered
  show ?thesis by simp
qed

text \<open>
  Claim C4. A verified subscription-deleted event whose customer matches one Profile sets that
  Profile to plan \<^verbatim>\<open>free\<close> with no subscription reference and no period end, and keeps its
  customer reference. A second delivery finds the same Profile and leaves it so again. User
  ids are unique in the table, as the upsert's conflict key requires.
\<close>

theorem subscription_deleted_transition:
  assumes v1: "verified_event w1 req = Some (CustomerSubscriptionDeleted sub)"
    and v2: "verified_event w2 req = Some (CustomerSubscriptionDeleted sub)"
    and c: "sub_customer sub = Some c"
    and m: "filter (\<lambda>q. stripe_customer_id q = Some (expandable_id c)) (profiles d) = [p]"
    and dist: "distinct (map user_id (profiles d))"
    and s1: "profiles_select_error w1 = None" "profiles_upsert_error w1 = None"
    and s2: "profiles_select_error w2 = None" "profiles_upsert_error w2 = None"
    and once: "once = snd (webhook_POST w1 d req)"
    and twice: "twice = snd (webhook_POST w2 once req)"
  shows "fst (webhook_POST w1 d req) = \<lparr>status = 200, payload = Ok None\<rparr> \<and>
         profile_of once (user_id p) =
           Some \<lparr>user_id = user_id p, email = email p, plan = ''free'',
                 stripe_customer_id = stripe_customer_id p,
                 stripe_subscription_id = None, current_period_end = None,
                 updated_at = now w1\<rparr> \<and>
         fst (webhook_POST w2 once req) = \<lparr>status = 200, payload = Ok None\<rparr> \<and>
         profile_of twice (user_id p) =
           Some \<lparr>user_id = user_id p, email = email p, plan = ''free'',
                 stripe_customer_id = stripe_customer_id p,
                 stripe_subscription_id = None, current_period_end = None,
                 updated_at = now w2\<rparr>"
proof -
  let ?cid = "expandable_id c"
  let ?row = "\<lambda>t. \<lparr>user_id = user_id p, email = email p, plan = ''free'',
                 stripe_customer_id = Some ?cid,
                 stripe_subscription_id = None, current_period_end = None,
                 updated_at = t\<rparr>"
  from m have "p \<in> set (filter (\<lambda>q. stripe_customer_id q = Some ?cid) (profiles d))" by simp
  then have pc: "stripe_customer_id p = Some ?cid" by simp
  have r1: "webhook_POST w1 d req =
      (\<lparr>status = 200, payload = Ok None\<rparr>, d\<lparr>profiles := upsert_row (?row (now w1)) (profiles d)\<rparr>)"
    using v1 c m s1
    by (simp add: webhook_POST_verified handle_event_def upsertProfile_def ok_def)
  then have o: "once = d\<lparr>profiles := upsert_row (?row (now w1)) (profiles d)\<rparr>"
    using once by simp
  have m': "filter (\<lambda>q. stripe_customer_id q = Some ?cid) (profiles once) = [?row (now w1)]"
    using o filter_replace_match [OF dist m, of "?row (now w1)"] by simp
  have r2: "webhook_POST w2 once req =
      (\<lparr>status = 200, payload = Ok None\<rparr>,
       once\<lparr>profiles := upsert_row (?row (now w2)) (profiles once)\<rparr>)"
    using v2 c m' s2
    by (simp add: webhook_POST_verified handle_event_def upsertProfile_def ok_def)
  then have t: "twice = once\<lparr>profiles := upsert_row (?row (now w2)) (profiles once)\<rparr>"
    using twice by simp
  have f1: "profile_of once (user_id p) = Some (?row (now w1))"
    using o by (simp add: profile_of_def find_upsert_row)
  have f2: "profile_of twice (user_id p) = Some (?row (now w2))"
    using t by (simp add: profile_of_def find_upsert_row)
  from r1 r2 f1 f2 pc show ?thesis by simp
qed

theorem subscription_deleted_transition_witness:
  "fst (webhook_POST demo_world demo_db (demo_hook ''evt_deleted'')) =
     \<lparr>status = 200, payload = Ok None\<rparr> \<and>
   profile_of (snd (webhook_POST demo_world demo_db (demo_hook ''evt_deleted''))) ''ann'' =
     Some \<lparr>user_id = ''ann'', email = Some ''ann@example.com'', plan = ''free'',
           stripe_customer_id = Some ''cus_ann'', stripe_subscription_id = None,
           current_period_end = None, updated_at = 1762128000000\<rparr> \<and>
   fst (webhook_POST later_world (snd (webhook_POST demo_world demo_db (demo_hook ''evt_deleted'')))
          (demo_hook ''evt_deleted'')) = \<lparr>status = 200, payload = Ok None\<rparr> \<and>
   profile_of (snd (webhook_POST later_world
          (snd (webhook_POST demo_world demo_db (demo_hook ''evt_deleted'')))
          (demo_hook ''evt_deleted''))) ''ann'' =
     Some \<lparr>user_id = ''ann'', email = Some ''ann@example.com'', plan = ''free'',
           stripe_customer_id = Some ''cus_ann'', stripe_subscription_id = None,
           current_period_end = None, updated_at = 1762128060000\<rparr>"
proof -
  have c: "sub_customer ann_subscription = Some (Expanded ''cus_ann'')"
    by (simp add: ann_subscription_def)
  have n: "now demo_world = 1762128000000" "now later_world = 1762128060000"
    by (simp_all add: demo_world_def later_world_def)
  from subscription_deleted_transition [OF demo_verified(6) demo_verified(7) c demo_ann_match
      demo_distinct demo_upsert_ok(3) demo_upsert_ok(1) demo_upsert_ok(4) demo_upsert_ok(2)
      refl refl] n
  show ?thesis
    by (simp add: ann_profile_def)
qed

text \<open>
  Claim C5. A verified subscription-updated event whose customer matches one Profile sets the
  plan to \<^verbatim>\<open>pro\<close> when the status is \<^verbatim>\<open>active\<close> and to \<^verbatim>\<open>free\<close> otherwise, and takes the
  subscription reference and the period end from the event. When no Profile matches, the event
  is acknowledged and the store is unchanged.
\<close>

theorem subscription_updated_transition:
  assumes v: "verified_event w req = Some (CustomerSubscriptionUpdated sub)"
    and c: "sub_customer sub = Some c"
    and sel: "profiles_select_error w = None"
  shows "(filter (\<lambda>q. stripe_customer_id q = Some (expandable_id c)) (profiles d) = [] \<longrightarrow>
            webhook_POST w d req =
              (\<lparr>status = 200, payload = Ok (Some ''No profile for customer'')\<rparr>, d)) \<and>
         (filter (\<lambda>q. stripe_customer_id q = Some (expandable_id c)) (profiles d) = [p] \<and>
          profiles_upsert_error w = None \<and>
          (\<forall>u. sub_current_period_end sub = Some u \<longrightarrow> \<bar>u * 1000\<bar> \<le> 8640000000000000) \<longrightarrow>
            fst (webhook_POST w d req) = \<lparr>status = 200, payload = Ok None\<rparr> \<and>
            profile_of (snd (webhook_POST w d req)) (user_id p) =
              Some \<lparr>user_id = user_id p, email = email p,
                    plan = (if sub_status sub = Some ''active'' then ''pro'' else ''free''),
                    stripe_customer_id = stripe_customer_id p,
                    stripe_subscription_id = sub_id sub,
                    current_period_end =
                      (case sub_current_period_end sub of
                         None \<Rightarrow> None
                       | Some u \<Rightarrow> if u = 0 then None else Some (u * 1000)),
                    updated_at = now w\<rparr>)"
proof -
  let ?match = "filter (\<lambda>q. stripe_customer_id q = Some (expandable_id c)) (profiles d)"
  let ?row = "\<lparr>user_id = user_id p, email = email p,
                plan = (if sub_status sub = Some ''active'' then ''pro'' else ''free''),
                stripe_customer_id = stripe_customer_id p,
                stripe_subscription_id = sub_id sub,
                current_period_end =
                  (case sub_current_period_end sub of
                     None \<Rightarrow> None
                   | Some u \<Rightarrow> if u = 0 then None else Some (u * 1000)),
                updated_at = now w\<rparr>"
  have none: "?match = [] \<longrightarrow>
      webhook_POST w d req = (\<lparr>status = 200, payload = Ok (Some ''No profile for customer'')\<rparr>, d)"
    using v c sel by (simp add: webhook_POST_verified handle_event_def ok_def)
  have one: "?match = [p] \<and> profiles_upsert_error w = None \<and>
      (\<forall>u. sub_current_period_end sub = Some u \<longrightarrow> \<bar>u * 1000\<bar> \<le> 8640000000000000) \<longrightarrow>
      fst (webhook_POST w d req) = \<lparr>status = 200, payload = Ok None\<rparr> \<and>
      profile_of (snd (webhook_POST w d req)) (user_id p) = Some ?row"
  proof (rule impI)
    assume h: "?match = [p] \<and> profiles_upsert_error w = None \<and>
      (\<forall>u. sub_current_period_end sub = Some u \<longrightarrow> \<bar>u * 1000\<bar> \<le> 8640000000000000)"
    then have "p \<in> set ?match" by simp
    then have pc: "stripe_customer_id p = Some (expandable_id c)" by simp
    from h have iso: "unixToIso (sub_current_period_end sub) =
        Inr (case sub_current_period_end sub of
               None \<Rightarrow> None | Some u \<Rightarrow> if u = 0 then None else Some (u * 1000))"
      by (simp add: unixToIso_value)
    from v c sel h iso pc
    show "fst (webhook_POST w d req) = \<lparr>status = 200, payload = Ok None\<rparr> \<and>
      profile_of (snd (webhook_POST w d req)) (user_id p) = Some ?row"
      by (simp add: webhook_POST_verified handle_event_def upsertProfile_def ok_def profile_of_def
          find_upsert_row)
  qed
  from none one show ?thesis by (rule conjI)
qed

theorem subscription_updated_transition_witness:
  "webhook_POST demo_world demo_db (demo_hook ''evt_updated_unknown'') =
     (\<lparr>status = 200, payload = Ok (Some ''No profile for customer'')\<rparr>, demo_db) \<and>
   fst (webhook_POST demo_world demo_db (demo_hook ''evt_updated'')) =
     \<lparr>status = 200, payload = Ok None\<rparr> \<and>
   profile_of (snd (webhook_POST demo_world demo_db (demo_hook ''evt_updated''))) ''ann'' =
     Some \<lparr>user_id = ''ann'', email = Some ''ann@example.com'', plan = ''free'',
           stripe_customer_id = Some ''cus_ann'', stripe_subscription_id = Some ''sub_ann2'',
           current_period_end = Some 1767225600000, updated_at = 1762128000000\<rparr>"
proof -
  have ca: "sub_customer ann_subscription = Some (Expanded ''cus_ann'')"
    by (simp add: ann_subscription_def)
  have cb: "sub_customer bob_subscription = Some (Ref ''cus_bob'')"
    by (simp add: bob_subscription_def)
  have n: "now demo_world = 1762128000000"
    by (simp add: demo_world_def)
  have r: "\<forall>u. sub_current_period_end ann_subscription = Some u \<longrightarrow> \<bar>u * 1000\<bar> \<le> 8640000000000000"
    by (simp add: ann_subscription_def)
  from subscription_updated_transition [OF demo_verified(5) cb demo_upsert_ok(3),
      where d = demo_db and p = ann_profile] demo_bob_no_match
  have none: "webhook_POST demo_world demo_db (demo_hook ''evt_updated_unknown'') =
     (\<lparr>status = 200, payload = Ok (Some ''No profile for customer'')\<rparr>, demo_db)"
    by blast
  from subscription_updated_transition [OF demo_verified(4) ca demo_upsert_ok(3),
      where d = demo_db and p = ann_profile] demo_ann_match demo_upsert_ok(1) r
  have "fst (webhook_POST demo_world demo_db (demo_hook ''evt_updated'')) =
      \<lparr>status = 200, payload = Ok None\<rparr> \<and>
    profile_of (snd (webhook_POST demo_world demo_db (demo_hook ''evt_updated''))) (user_id ann_profile) =
      Some \<lparr>user_id = user_id ann_profile, email = email ann_profile,
            plan = (if sub_status ann_subscription = Some ''active'' then ''pro'' else ''free''),
            stripe_customer_id = stripe_customer_id ann_profile,
            stripe_subscription_id = sub_id ann_subscription,
            current_period_end =
              (case sub_current_period_end ann_subscription of
                 None \<Rightarrow> None
               | Some u \<Rightarrow> if u = 0 then None else Some (u * 1000)),
            updated_at = now demo_world\<rparr>"
    by blast
  with none n show ?thesis
    by (simp add: ann_profile_def ann_subscription_def)
qed

section \<open>Validation and ordering in the generation endpoint\<close>

text \<open>
  Values that are missing or empty are rejected: once the quota check has passed, a falsy
  client name or notes field is answered with 400 before the text provider is called and
  before anything is stored.
\<close>

lemma missing_fields_rejected:
  assumes tok: "bearer_token (authorization req) = Some token" "token \<noteq> []"
    and cfg: "\<not> absent (env w ''NEXT_PUBLIC_SUPABASE_URL'')"
             "\<not> absent (env w ''NEXT_PUBLIC_SUPABASE_ANON_KEY'')"
    and user: "getUser w token = AuthReply (Some uid) None"
    and prof: "maybeSingle (profiles_select_error w) (filter (\<lambda>p. user_id p = uid) (profiles d)) = Inr profile"
    and pass: "(case profile of None \<Rightarrow> ''free'' | Some p \<Rightarrow> plan p) = ''pro'' \<or>
               proposals_count_error w = None \<and> count_since (proposals d) uid (startOfMonth w) < 3"
    and b: "body req = Parsed b"
    and f: "\<not> truthy (clientName b) \<or> \<not> truthy (notes_val b)"
  shows "fst (generate_POST w d req) =
           \<lparr>status = 400, payload = ErrorBody ''Missing clientName or notes''\<rparr> \<and>
         fst (snd (generate_POST w d req)) = d \<and>
         \<not> list_ex is_ChatCompletionsCreate (snd (snd (generate_POST w d req))) \<and>
         \<not> list_ex is_InsertProposal (snd (snd (generate_POST w d req)))"
  using assms
  by (auto simp: generate_POST_def Let_def FREE_LIMIT_def split: option.splits)

text \<open>
  Claim C6. The handler checks the two fields for truthiness only, without trimming. A client
  name of three spaces passes the check: the text provider is called and a proposal is stored
  whose client name, trimmed on saving, is empty.
\<close>

theorem whitespace_client_name_accepted:
  "generate_POST demo_world demo_db
     \<lparr>authorization = Some ''Bearer tok-ann'',
      body = Parsed \<lparr>clientName = JStr ''   '', notes_val = JStr ''valid notes text here''\<rparr>\<rparr> =
   (\<lparr>status = 200,
     payload = Generated ''Executive Summary''
       \<lparr>row_id = 6, owner_id = ''ann'', client_name = [],
        notes_col = JStr ''valid notes text here'', proposal_text = ''Executive Summary'',
        created_at = 1762128000000\<rparr>\<rparr>,
    demo_db\<lparr>proposals := proposals demo_db @
       [\<lparr>row_id = 6, owner_id = ''ann'', client_name = [],
         notes_col = JStr ''valid notes text here'', proposal_text = ''Executive Summary'',
         created_at = 1762128000000\<rparr>]\<rparr>,
    [AuthGetUser ''tok-ann'', SelectPlan ''ann'', ReadJson,
     ChatCompletionsCreate (prompt_of (JStr ''   '') (JStr ''valid notes text here'')),
     InsertProposal ''ann''])"
proof -
  have t: "trim ''   '' = []"
    by (simp add: trim_def is_space_def)
  have n: "length (proposals demo_db) = 6"
    by (simp add: demo_db_def)
  have p: "maybeSingle (profiles_select_error demo_world)
      (filter (\<lambda>p. user_id p = ''ann'') (profiles demo_db)) = Inr (Some ann_profile)"
    by (simp add: demo_world_def demo_db_def ann_profile_def bob_profile_def)
  have pl: "plan ann_profile = ''pro''"
    by (simp add: ann_profile_def)
  have w: "env demo_world = demo_env" "getUser demo_world = demo_getUser"
    "proposals_insert_error demo_world = None" "now demo_world = 1762128000000"
    "chat_completions_create demo_world = (\<lambda>prompt. Inr (Some ''Executive Summary''))"
    by (simp_all add: demo_world_def)
  show ?thesis
    by (simp add: generate_POST_def bearer_token_def p pl w t n demo_env_def demo_getUser_def
        absent_def Let_def)
qed

theorem whitespace_client_name_accepted_witness:
  "status (fst (generate_POST demo_world demo_db
     \<lparr>authorization = Some ''Bearer tok-ann'',
      body = Parsed \<lparr>clientName = JStr ''   '', notes_val = JStr ''valid notes text here''\<rparr>\<rparr>)) = 200 \<and>
   list_ex is_ChatCompletionsCreate (snd (snd (generate_POST demo_world demo_db
     \<lparr>authorization = Some ''Bearer tok-ann'',
      body = Parsed \<lparr>clientName = JStr ''   '', notes_val = JStr ''valid notes text here''\<rparr>\<rparr>))) \<and>
   client_name (last (proposals (fst (snd (generate_POST demo_world demo_db
     \<lparr>authorization = Some ''Bearer tok-ann'',
      body = Parsed \<lparr>clientName = JStr ''   '', notes_val = JStr ''valid notes text here''\<rparr>\<rparr>))))) = []"
  unfolding whitespace_client_name_accepted by simp

lemmas gen_splits = parsed.splits sum.splits option.splits if_splits auth_reply.splits

lemma ordering_unauthenticated:
  assumes r: "generate_POST w d req = (resp, d', calls)"
    and u: "\<forall>t u. bearer_token (authorization req) = Some t \<longrightarrow> getUser w t \<noteq> AuthReply (Some u) None"
  shows "(status resp = 401 \<or> status resp = 500) \<and> list_all is_AuthGetUser calls \<and> d' = d"
proof (cases "bearer_token (authorization req)")
  case None
  with r show ?thesis by (auto simp: generate_POST_def)
next
  case (Some t)
  with u have "\<And>u. getUser w t \<noteq> AuthReply (Some u) None" by simp
  then have "(if authErr \<noteq> None then None else user) = None"
    if "getUser w t = AuthReply user authErr" for user authErr
    using that by (cases user; cases authErr) auto
  with r Some show ?thesis
    by (auto simp: generate_POST_def split: auth_reply.splits if_splits)
qed

lemma ordering_401:
  assumes r: "generate_POST w d req = (resp, d', calls)" and s: "status resp = 401"
  shows "list_all is_AuthGetUser calls \<and> d' = d"
  using r s
  by (simp add: generate_POST_def generate_catch_def Let_def split: gen_splits) auto

lemma ordering_402:
  assumes r: "generate_POST w d req = (resp, d', calls)" and s: "status resp = 402"
  shows "\<not> list_ex is_ChatCompletionsCreate calls \<and> \<not> list_ex is_InsertProposal calls \<and> d' = d"
  using r s
  by (simp add: generate_POST_def generate_catch_def Let_def split: gen_splits) auto

lemma ordering_count:
  assumes r: "generate_POST w d req = (resp, d', calls)" and s: "list_ex is_CountProposals calls"
  shows "list_ex is_AuthGetUser (calls_before is_CountProposals calls) \<and>
         \<not> list_ex is_ChatCompletionsCreate (calls_before is_CountProposals calls)"
  using r s
  by (simp add: generate_POST_def generate_catch_def Let_def calls_before_def split: gen_splits) auto

lemma ordering_chat:
  assumes r: "generate_POST w d req = (resp, d', calls)"
    and s: "list_ex is_ChatCompletionsCreate calls"
  shows "status resp \<noteq> 401 \<and> status resp \<noteq> 402 \<and>
         list_ex is_AuthGetUser (calls_before is_ChatCompletionsCreate calls) \<and>
         (\<exists>t u profile. bearer_token (authorization req) = Some t \<and>
            getUser w t = AuthReply (Some u) None \<and>
            maybeSingle (profiles_select_error w) (filter (\<lambda>p. user_id p = u) (profiles d)) = Inr profile \<and>
            ((case profile of None \<Rightarrow> ''free'' | Some p \<Rightarrow> plan p) = ''pro'' \<or>
             list_ex is_CountProposals (calls_before is_ChatCompletionsCreate calls) \<and>
             count_since (proposals d) u (startOfMonth w) < 3))"
  using r s
  by (simp add: generate_POST_def generate_catch_def Let_def calls_before_def FREE_LIMIT_def
      split: gen_splits) auto

text \<open>
  Claim C7. A request whose identity is not resolved is answered with 401 (or 500 when the
  server is not configured) after at most the identity call: no plan is loaded and nothing is
  counted. When proposals are counted, the identity call precedes the count and the text
  provider has not been called before it. A request answered with 402 has called neither the
  text provider nor the store's insert. When the text provider is called, the identity was
  resolved first and the plan is \<^verbatim>\<open>pro\<close> or the count, taken before the call, is below 3.
\<close>

theorem orchestrator_ordering:
  assumes r: "generate_POST w d req = (resp, d', calls)"
  shows "((\<forall>t u. bearer_token (authorization req) = Some t \<longrightarrow> getUser w t \<noteq> AuthReply (Some u) None) \<longrightarrow>
            (status resp = 401 \<or> status resp = 500) \<and> list_all is_AuthGetUser calls \<and> d' = d) \<and>
         (status resp = 401 \<longrightarrow> list_all is_AuthGetUser calls \<and> d' = d) \<and>
         (list_ex is_CountProposals calls \<longrightarrow>
            list_ex is_AuthGetUser (calls_before is_CountProposals calls) \<and>
            \<not> list_ex is_ChatCompletionsCreate (calls_before is_CountProposals calls)) \<and>
         (status resp = 402 \<longrightarrow>
            \<not> list_ex is_ChatCompletionsCreate calls \<and> \<not> list_ex is_InsertProposal calls \<and> d' = d) \<and>
         (list_ex is_ChatCompletionsCreate calls \<longrightarrow>
            status resp \<noteq> 401 \<and> status resp \<noteq> 402 \<and>
            list_ex is_AuthGetUser (calls_before is_ChatCompletionsCreate calls) \<and>
            (\<exists>t u profile. bearer_token (authorization req) = Some t \<and>
               getUser w t = AuthReply (Some u) None \<and>
               maybeSingle (profiles_select_error w) (filter (\<lambda>p. user_id p = u) (profiles d)) = Inr profile \<and>
               ((case profile of None \<Rightarrow> ''free'' | Some p \<Rightarrow> plan p) = ''pro'' \<or>
                list_ex is_CountProposals (calls_before is_ChatCompletionsCreate calls) \<and>
                count_since (proposals d) u (startOfMonth w) < 3)))"
  using ordering_unauthenticated [OF r] ordering_401 [OF r] ordering_count [OF r]
    ordering_402 [OF r] ordering_chat [OF r]
  by blast

theorem orchestrator_ordering_witness:
  "generate_POST demo_world demo_db
      \<lparr>authorization = None,
       body = Parsed \<lparr>clientName = JStr ''Acme'', notes_val = JStr ''wants more leads''\<rparr>\<rparr> =
     (\<lparr>status = 401, payload = ErrorBody ''Unauthorized''\<rparr>, demo_db, []) \<and>
   status (fst (generate_POST demo_world demo_db (demo_generate ''tok-cy''))) = 402 \<and>
   \<not> list_ex is_ChatCompletionsCreate (snd (snd (generate_POST demo_world demo_db (demo_generate ''tok-cy'')))) \<and>
   list_ex is_AuthGetUser (calls_before is_CountProposals
      (snd (snd (generate_POST demo_world demo_db (demo_generate ''tok-cy''))))) \<and>
   list_ex is_ChatCompletionsCreate (snd (snd (generate_POST demo_world demo_db (demo_generate ''tok-bob'')))) \<and>
   list_ex is_AuthGetUser (calls_before is_ChatCompletionsCreate
      (snd (snd (generate_POST demo_world demo_db (demo_generate ''tok-bob''))))) \<and>
   status (fst (generate_POST demo_world demo_db (demo_generate ''tok-bob''))) \<noteq> 402"
proof -
  let ?anon = "\<lparr>authorization = None,
       body = Parsed \<lparr>clientName = JStr ''Acme'', notes_val = JStr ''wants more leads''\<rparr>\<rparr>"
  have w: "env demo_world = demo_env" "getUser demo_world = demo_getUser"
    "profiles_select_error demo_world = None" "proposals_count_error demo_world = None"
    "proposals_insert_error demo_world = None" "startOfMonth demo_world = 1761955200000"
    "chat_completions_create demo_world = (\<lambda>prompt. Inr (Some ''Executive Summary''))"
    by (simp_all add: demo_world_def)
  have rows: "filter (\<lambda>p. user_id p = ''cy'') (profiles demo_db) = []"
    "filter (\<lambda>p. user_id p = ''bob'') (profiles demo_db) = [bob_profile]"
    by (simp_all add: demo_db_def ann_profile_def bob_profile_def)
  have pl: "plan bob_profile = ''free''"
    by (simp add: bob_profile_def)
  have used: "count_since (proposals demo_db) ''cy'' 1761955200000 = 3"
    "count_since (proposals demo_db) ''bob'' 1761955200000 = 1"
    by (simp_all add: demo_db_def count_since_def demo_proposal_def)
  have anon: "generate_POST demo_world demo_db ?anon =
      (\<lparr>status = 401, payload = ErrorBody ''Unauthorized''\<rparr>, demo_db, [])"
    by (simp add: generate_POST_def bearer_token_def)
  have b: "bearer_token (authorization ?anon) = None"
    by (simp add: bearer_token_def)
  obtain r2 c2 where cy: "generate_POST demo_world demo_db (demo_generate ''tok-cy'') = (r2, demo_db, c2)"
    and cy_status: "status r2 = 402" and cy_count: "list_ex is_CountProposals c2"
    by (simp add: generate_POST_def demo_generate_def bearer_token_def w rows used demo_env_def
        demo_getUser_def absent_def Let_def FREE_LIMIT_def)
  obtain r3 d3 c3 where bob: "generate_POST demo_world demo_db (demo_generate ''tok-bob'') = (r3, d3, c3)"
    and bob_chat: "list_ex is_ChatCompletionsCreate c3" and bob_count: "list_ex is_CountProposals c3"
    by (simp add: generate_POST_def demo_generate_def bearer_token_def w rows pl used demo_env_def
        demo_getUser_def absent_def Let_def FREE_LIMIT_def)
  from orchestrator_ordering [OF anon] b
  have u: "list_all is_AuthGetUser ([] :: call list)" by simp
  from orchestrator_ordering [OF cy] cy_status cy_count
  have c: "\<not> list_ex is_ChatCompletionsCreate c2 \<and>
      list_ex is_AuthGetUser (calls_before is_CountProposals c2)"
    by blast
  from orchestrator_ordering [OF bob] bob_chat bob_count
  have d: "list_ex is_AuthGetUser (calls_before is_ChatCompletionsCreate c3) \<and> status r3 \<noteq> 402"
    by blast
  from anon cy cy_status c bob bob_chat d show ?thesis by simp
qed

section \<open>Acknowledgment of webhook requests\<close>






section \<open>Checkout sessions\<close>

text \<open>
  Claim C9. When the body's email or user id is missing or empty, no checkout session is
  created; with the payment provider's key and the price id configured, the answer is 400 with
  the error \<^verbatim>\<open>Missing email\<close> or \<^verbatim>\<open>Missing userId\<close>.
\<close>

theorem checkout_input_guard:
  "(\<not> truthy (body_email b) \<or> \<not> truthy (body_userId b)) \<longrightarrow>
     snd (checkout_POST w (Parsed b)) = [] \<and>
     (\<not> absent (env w ''STRIPE_SECRET_KEY'') \<and> \<not> absent (env w ''NEXT_PUBLIC_STRIPE_PRICE_ID'') \<longrightarrow>
        fst (checkout_POST w (Parsed b)) =
          \<lparr>status = 400,
           payload = CheckoutError
             (if \<not> truthy (body_email b) then ''Missing email'' else ''Missing userId'')\<rparr>)"
  by (auto simp: checkout_POST_def absent_def split: option.splits)

theorem checkout_input_guard_witness:
  "checkout_POST demo_world (Parsed \<lparr>body_email = JStr [], body_userId = JStr ''bob''\<rparr>) =
     (\<lparr>status = 400, payload = CheckoutError ''Missing email''\<rparr>, []) \<and>
   checkout_POST demo_world (Parsed \<lparr>body_email = JStr ''bob@example.com'', body_userId = JUndefined\<rparr>) =
     (\<lparr>status = 400, payload = CheckoutError ''Missing userId''\<rparr>, [])"
proof -
  have e: "\<not> absent (env demo_world ''STRIPE_SECRET_KEY'')"
    "\<not> absent (env demo_world ''NEXT_PUBLIC_STRIPE_PRICE_ID'')"
    by (simp_all add: demo_world_def demo_env_def absent_def)
  from checkout_input_guard [of "\<lparr>body_email = JStr [], body_userId = JStr ''bob''\<rparr>" demo_world] e
  have a: "checkout_POST demo_world (Parsed \<lparr>body_email = JStr [], body_userId = JStr ''bob''\<rparr>) =
     (\<lparr>status = 400, payload = CheckoutError ''Missing email''\<rparr>, [])"
    by (simp add: prod_eq_iff)
  from checkout_input_guard
    [of "\<lparr>body_email = JStr ''bob@example.com'', body_userId = JUndefined\<rparr>" demo_world] e
  have b: "checkout_POST demo_world
      (Parsed \<lparr>body_email = JStr ''bob@example.com'', body_userId = JUndefined\<rparr>) =
     (\<lparr>status = 400, payload = CheckoutError ''Missing userId''\<rparr>, [])"
    by (simp add: prod_eq_iff)
  from a b show ?thesis by (rule conjI)
qed

text \<open>
  Claim C10. A verified checkout-completed event in subscription mode that carries a user id
  but no subscription still upserts the Profile with plan \<^verbatim>\<open>pro\<close>, no subscription reference
  and no period end.
\<close>

theorem checkout_without_subscription:
  assumes "verified_event w req = Some (CheckoutSessionCompleted session)"
    and "mode session = ''subscription''"
    and "metadata_user_id session = Some userId" and "userId \<noteq> []"
    and "session_subscription session = None"
    and "profiles_upsert_error w = None"
    and "row = \<lparr>user_id = userId,
                email = (case customer_details_email session of
                           Some e \<Rightarrow> Some e | None \<Rightarrow> customer_email session),
                plan = ''pro'',
                stripe_customer_id = map_option expandable_id (customer session),
                stripe_subscription_id = None,
                current_period_end = None,
                updated_at = now w\<rparr>"
  shows "webhook_POST w d req =
           (\<lparr>status = 200, payload = Ok None\<rparr>, d\<lparr>profiles := upsert_row row (profiles d)\<rparr>) \<and>
         profile_of (snd (webhook_POST w d req)) userId = Some row"
  using assms
  by (simp add: webhook_POST_verified handle_event_def currentPeriodEndIso_def upsertProfile_def
      ok_def profile_of_def find_upsert_row)

theorem checkout_without_subscription_witness:
  "webhook_POST demo_world demo_db (demo_hook ''evt_checkout_no_subscription'') =
     (\<lparr>status = 200, payload = Ok None\<rparr>,
      demo_db\<lparr>profiles :=
        [ann_profile,
         \<lparr>user_id = ''bob'', email = Some ''bob@example.com'', plan = ''pro'',
          stripe_customer_id = Some ''cus_bob'', stripe_subscription_id = None,
          current_period_end = None, updated_at = 1762128000000\<rparr>]\<rparr>) \<and>
   profile_of (snd (webhook_POST demo_world demo_db (demo_hook ''evt_checkout_no_subscription''))) ''bob'' =
     Some \<lparr>user_id = ''bob'', email = Some ''bob@example.com'', plan = ''pro'',
           stripe_customer_id = Some ''cus_bob'', stripe_subscription_id = None,
           current_period_end = None, updated_at = 1762128000000\<rparr>"
proof -
  let ?s = "bob_session\<lparr>session_subscription := None\<rparr>"
  have a: "mode ?s = ''subscription''" "metadata_user_id ?s = Some ''bob''" "''bob'' \<noteq> []"
    "session_subscription ?s = None"
    by (simp_all add: bob_session_def)
  have u: "upsert_row
      \<lparr>user_id = ''bob'', email = Some ''bob@example.com'', plan = ''pro'',
       stripe_customer_id = Some ''cus_bob'', stripe_subscription_id = None,
       current_period_end = None, updated_at = 1762128000000\<rparr> (profiles demo_db) =
     [ann_profile,
      \<lparr>user_id = ''bob'', email = Some ''bob@example.com'', plan = ''pro'',
       stripe_customer_id = Some ''cus_bob'', stripe_subscription_id = None,
       current_period_end = None, updated_at = 1762128000000\<rparr>]"
    by (simp add: upsert_row_def demo_db_def ann_profile_def bob_profile_def)
  note w = checkout_without_subscription [OF demo_verified(3) a demo_upsert_ok(1) refl, of demo_db]
  from w [THEN conjunct1] u
  have first: "webhook_POST demo_world demo_db (demo_hook ''evt_checkout_no_subscription'') =
     (\<lparr>status = 200, payload = Ok None\<rparr>,
      demo_db\<lparr>profiles :=
        [ann_profile,
         \<lparr>user_id = ''bob'', email = Some ''bob@example.com'', plan = ''pro'',
          stripe_customer_id = Some ''cus_bob'', stripe_subscription_id = None,
          current_period_end = None, updated_at = 1762128000000\<rparr>]\<rparr>)"
    by (simp add: bob_session_def demo_world_def)
  from w [THEN conjunct2]
  have second: "profile_of
       (snd (webhook_POST demo_world demo_db (demo_hook ''evt_checkout_no_subscription''))) ''bob'' =
     Some \<lparr>user_id = ''bob'', email = Some ''bob@example.com'', plan = ''pro'',
           stripe_customer_id = Some ''cus_bob'', stripe_subscription_id = None,
           current_period_end = None, updated_at = 1762128000000\<rparr>"
    by (simp add: bob_session_def demo_world_def)
  from first second show ?thesis by (rule conjI)
qed

end
